theory Spec2Isabelle
  imports Main "HOL-Library.Multiset"
begin

section \<open>Enumerations, constants and exceptions\<close>

text \<open>
  Modelled from the spec: \<^verbatim>\<open>base/enums/game_phase.py\<close> is not among the sources.
  The members named in \<^verbatim>\<open>game.py\<close>, \<^verbatim>\<open>put_action.py\<close> and
  \<^verbatim>\<open>discard_card_action.py\<close> keep their names; the spec lists the phases as
  "draw, action, play-joker, end-turn, no-cards variants, finished".
\<close>

datatype game_phase =
    DRAW_PHASE
  | ACTION_PHASE
  | PLAY_JOKER_PHASE
  | END_TURN_PHASE
  | NO_CARDS_PHASE
  | NO_CARDS_END_TURN_PHASE
  | FINISHED_PHASE

datatype team_color = RED | BLUE

text \<open>
  Modelled from the spec: \<^verbatim>\<open>base/constants.py\<close> is not among the sources. The spec
  fixes "4 players in 2 fixed teams", and \<^verbatim>\<open>Game._initialize_players\<close> reads
  \<^verbatim>\<open>players[0..3]\<close> and builds \<^verbatim>\<open>[team_red, team_blue]\<close>.
\<close>

definition NUM_PLAYERS :: int where
  "NUM_PLAYERS = 4"

definition NUM_TEAMS :: int where
  "NUM_TEAMS = 2"

text \<open>
  The exceptions a call can end with. \<open>GameNotInitialized\<close> is
  \<^verbatim>\<open>Exception("Game not initialized")\<close>; the others are the exceptions Python raises by
  itself on \<^verbatim>\<open>None.attr\<close>, on iterating or indexing with \<^verbatim>\<open>None\<close>, on an index
  out of range, and on removing an absent element.
\<close>

datatype error =
    GameNotInitialized
  | AttributeError
  | TypeError
  | IndexError
  | KeyError

section \<open>Data model\<close>

text \<open>
  Cards are values of a type parameter \<open>'c\<close>, compared by value (\<^verbatim>\<open>base/card.py\<close> is not
  among the sources). \<^verbatim>\<open>Hand\<close>, \<^verbatim>\<open>Stack\<close>, \<^verbatim>\<open>Deck\<close> and \<^verbatim>\<open>CardSeries\<close> are
  lists of cards: each is an ordered collection that may hold the same card twice (the
  deck is a double deck).

  A \<^verbatim>\<open>Team\<close> object is shared by its two players; no function of the sources
  assigns to a team, so each player record carries the state of its team.
\<close>

record team =
  color :: team_color
  grabbed_pile :: bool
  team_players :: "nat list"

record 'c player =
  index :: nat
  hand :: "'c list"
  team :: team

record 'c board =
  deck :: "'c list"
  left_pile :: "'c list"
  right_pile :: "'c list"
  stack :: "'c list"
  red_team_series :: "'c list list"
  blue_team_series :: "'c list list"
  phase :: game_phase

text \<open>
  \<^verbatim>\<open>Action\<close> (\<^verbatim>\<open>base/actions/action.py\<close>, not among the sources) holds the
  \<^verbatim>\<open>is_executed\<close> flag that \<^verbatim>\<open>__str__\<close> reads; the two subclasses add their field.
\<close>

record action =
  is_executed :: bool

record 'c discard_card_action = action +
  card_fld :: 'c

record 'c put_action = action +
  series :: "'c list"

text \<open>
  The methods of classes that are not among the sources and whose result the spec does
  not determine are parameters of the model, collected in one record:
  \<^verbatim>\<open>Card.is_joker\<close>, \<^verbatim>\<open>Card.get_score\<close>, \<^verbatim>\<open>CardSeries.is_valid\<close>,
  \<^verbatim>\<open>CardSeries.get_total_value\<close>, \<^verbatim>\<open>Board.player_may_clear_hand\<close>,
  \<^verbatim>\<open>Board.num_piles_remaining\<close> and \<^verbatim>\<open>Board.team_has_pure\<close>. The spec calls the
  board's methods "query predicates". \<open>is_wildcard\<close> is the "wildcard" status that the
  spec gives a card beside the joker status.
\<close>

record 'c deps =
  is_joker :: "'c \<Rightarrow> bool"
  is_wildcard :: "'c \<Rightarrow> bool"
  get_score :: "'c \<Rightarrow> int"
  is_valid :: "'c list \<Rightarrow> bool"
  get_total_value :: "'c list \<Rightarrow> int"
  player_may_clear_hand :: "'c board \<Rightarrow> 'c player \<Rightarrow> 'c put_action \<Rightarrow> bool"
  num_piles_remaining :: "'c board \<Rightarrow> nat"
  team_has_pure :: "'c board \<Rightarrow> team \<Rightarrow> bool"


subsection \<open>Container operations\<close>

text \<open>
  Modelled from the spec: \<^verbatim>\<open>Player.num_cards\<close>, the \<^verbatim>\<open>Hand\<close> collaborator
  ("membership test, pop(card), is_empty()", "removal-by-value") and \<^verbatim>\<open>Stack.put\<close>.
  \<open>Hand_pop\<close> removes one occurrence of the card and returns it; on an absent card it
  raises, which is the value \<open>None\<close>.
\<close>

definition num_cards :: "'c player \<Rightarrow> nat" where
  "num_cards p = length (hand p)"

definition Hand_contains :: "'c list \<Rightarrow> 'c \<Rightarrow> bool" where
  "Hand_contains h c = (c \<in> set h)"

definition Hand_is_empty :: "'c list \<Rightarrow> bool" where
  "Hand_is_empty h = (h = [])"

definition Hand_pop :: "'c list \<Rightarrow> 'c \<Rightarrow> ('c \<times> 'c list) option" where
  "Hand_pop h c = (if c \<in> set h then Some (c, remove1 c h) else None)"

definition Stack_put :: "'c list \<Rightarrow> 'c \<Rightarrow> 'c list" where
  "Stack_put s c = s @ [c]"

definition Deck_is_empty :: "'c list \<Rightarrow> bool" where
  "Deck_is_empty d = (d = [])"

section \<open>DiscardCardAction\<close>

definition DiscardCardAction_get_reward :: "'c discard_card_action \<Rightarrow> int" where
  "DiscardCardAction_get_reward a = 1"

text \<open>With \<^verbatim>\<open>verbose\<close> the first branch also writes a line to the log.\<close>

definition DiscardCardAction_validate ::
  "'c discard_card_action \<Rightarrow> 'c player \<Rightarrow> 'c board \<Rightarrow> bool \<Rightarrow> bool" where
  "DiscardCardAction_validate a p b verbose =
     (if phase b \<noteq> ACTION_PHASE then False
      else if \<not> Hand_contains (hand p) (card_fld a) then False
      else True)"

section \<open>PutAction\<close>

definition PutAction_get_reward :: "'c deps \<Rightarrow> 'c put_action \<Rightarrow> int" where
  "PutAction_get_reward d a = get_total_value d (series a)"

text \<open>
  The loop \<^verbatim>\<open>for card in self.series: if card not in player.hand: return False\<close>.
\<close>

fun has_all_cards :: "'c list \<Rightarrow> 'c list \<Rightarrow> bool" where
  "has_all_cards h [] = True"
| "has_all_cards h (c # cs) = (if \<not> Hand_contains h c then False else has_all_cards h cs)"

definition PutAction_validate ::
  "'c deps \<Rightarrow> 'c put_action \<Rightarrow> 'c player \<Rightarrow> 'c board \<Rightarrow> bool \<Rightarrow> bool" where
  "PutAction_validate d a p b verbose =
     (if phase b \<notin> set [ACTION_PHASE, PLAY_JOKER_PHASE] then False
      else if phase b = PLAY_JOKER_PHASE \<and> \<not> list_ex (is_joker d) (series a) then False
      else if num_cards p \<le> length (series a) + 1 \<and> \<not> player_may_clear_hand d b p a then False
      else if \<not> has_all_cards (hand p) (series a) then False
      else if \<not> is_valid d (series a) then False
      else True)"




subsection \<open>Executing the two actions\<close>

text \<open>
  An execution returns the player and the board as the call leaves them, and the
  exception it ended with, if any: what Python had already assigned when the exception
  was raised stays assigned.
\<close>

definition DiscardCardAction_execute ::
  "'c discard_card_action \<Rightarrow> 'c player \<Rightarrow> 'c board \<Rightarrow> error option \<times> 'c player \<times> 'c board" where
  "DiscardCardAction_execute a p b =
     (case Hand_pop (hand p) (card_fld a) of
        None \<Rightarrow> (Some KeyError, p, b)
      | Some (c, h') \<Rightarrow> (None, p\<lparr>hand := h'\<rparr>, b\<lparr>stack := Stack_put (stack b) c\<rparr>))"

definition DiscardCardAction_target_phase ::
  "'c discard_card_action \<Rightarrow> 'c player \<Rightarrow> 'c board \<Rightarrow> game_phase" where
  "DiscardCardAction_target_phase a p b =
     (if Hand_is_empty (hand p) then NO_CARDS_END_TURN_PHASE else END_TURN_PHASE)"

text \<open>The loop \<^verbatim>\<open>for card in self.series: player.hand.pop(card)\<close>.\<close>

fun pop_all :: "'c list \<Rightarrow> 'c list \<Rightarrow> error option \<times> 'c list" where
  "pop_all h [] = (None, h)"
| "pop_all h (c # cs) =
     (case Hand_pop h c of
        None \<Rightarrow> (Some KeyError, h)
      | Some (c', h') \<Rightarrow> pop_all h' cs)"


definition append_series_for_player :: "'c board \<Rightarrow> 'c player \<Rightarrow> 'c list \<Rightarrow> 'c board" where
  "append_series_for_player b p s =
     (if color (team p) = RED then b\<lparr>red_team_series := red_team_series b @ [s]\<rparr>
      else b\<lparr>blue_team_series := blue_team_series b @ [s]\<rparr>)"

definition PutAction_execute ::
  "'c put_action \<Rightarrow> 'c player \<Rightarrow> 'c board \<Rightarrow> error option \<times> 'c player \<times> 'c board" where
  "PutAction_execute a p b =
     (case pop_all (hand p) (series a) of
        (Some e, h') \<Rightarrow> (Some e, p\<lparr>hand := h'\<rparr>, b)
      | (None, h') \<Rightarrow> (None, p\<lparr>hand := h'\<rparr>, append_series_for_player b p (series a)))"

definition PutAction_target_phase ::
  "'c put_action \<Rightarrow> 'c player \<Rightarrow> 'c board \<Rightarrow> game_phase" where
  "PutAction_target_phase a p b =
     (if Hand_is_empty (hand p) then NO_CARDS_PHASE else ACTION_PHASE)"

subsection \<open>Validation as a step on the state\<close>

text \<open>
  The two \<^verbatim>\<open>validate\<close> methods again, with the objects they receive threaded through
  every statement: the result is the returned boolean together with the action, the
  player and the board as the call leaves them. Each statement of the source is a test
  or a \<^verbatim>\<open>return\<close>; the queries it calls are the ones above.
\<close>

definition DiscardCardAction_validate_st ::
  "'c discard_card_action \<Rightarrow> 'c player \<Rightarrow> 'c board \<Rightarrow> bool
     \<Rightarrow> bool \<times> 'c discard_card_action \<times> 'c player \<times> 'c board" where
  "DiscardCardAction_validate_st a p b verbose =
     (if phase b \<noteq> ACTION_PHASE then (False, a, p, b)
      else if \<not> Hand_contains (hand p) (card_fld a) then (False, a, p, b)
      else (True, a, p, b))"

fun has_all_cards_st :: "'c player \<Rightarrow> 'c list \<Rightarrow> bool \<times> 'c player" where
  "has_all_cards_st p [] = (True, p)"
| "has_all_cards_st p (c # cs) =
     (if \<not> Hand_contains (hand p) c then (False, p) else has_all_cards_st p cs)"

definition PutAction_validate_st ::
  "'c deps \<Rightarrow> 'c put_action \<Rightarrow> 'c player \<Rightarrow> 'c board \<Rightarrow> bool
     \<Rightarrow> bool \<times> 'c put_action \<times> 'c player \<times> 'c board" where
  "PutAction_validate_st d a p b verbose =
     (if phase b \<notin> set [ACTION_PHASE, PLAY_JOKER_PHASE] then (False, a, p, b)
      else if phase b = PLAY_JOKER_PHASE \<and> \<not> list_ex (is_joker d) (series a) then (False, a, p, b)
      else if num_cards p \<le> length (series a) + 1 \<and> \<not> player_may_clear_hand d b p a
        then (False, a, p, b)
      else (case has_all_cards_st p (series a) of
              (False, p') \<Rightarrow> (False, a, p', b)
            | (True, p') \<Rightarrow>
                if \<not> is_valid d (series a) then (False, a, p', b) else (True, a, p', b)))"

section \<open>Card conservation: the containers and the moves\<close>

definition board_cards :: "'c board \<Rightarrow> 'c multiset" where
  "board_cards b =
     mset (deck b) + mset (left_pile b) + mset (right_pile b) + mset (stack b)
     + mset (concat (red_team_series b)) + mset (concat (blue_team_series b))"

definition hands_cards :: "'c player list \<Rightarrow> 'c multiset" where
  "hands_cards ps = mset (concat (map hand ps))"

definition all_cards :: "'c board \<times> 'c player list \<Rightarrow> 'c multiset" where
  "all_cards w = board_cards (fst w) + hands_cards (snd w)"

datatype 'c move = Discard "'c discard_card_action" | Put "'c put_action"

fun execute_move ::
  "'c move \<Rightarrow> 'c player \<Rightarrow> 'c board \<Rightarrow> error option \<times> 'c player \<times> 'c board" where
  "execute_move (Discard a) p b = DiscardCardAction_execute a p b"
| "execute_move (Put a) p b = PutAction_execute a p b"

text \<open>Player \<open>i\<close> of the list executes a move on the shared board.\<close>

definition play_move ::
  "nat \<Rightarrow> 'c move \<Rightarrow> 'c board \<times> 'c player list \<Rightarrow> error option \<times> 'c board \<times> 'c player list" where
  "play_move i m w =
     (if i < length (snd w)
      then (case execute_move m (snd w ! i) (fst w) of
              (e, p', b') \<Rightarrow> (e, b', (snd w)[i := p']))
      else (Some IndexError, w))"

text \<open>
  A run of the game from a state: the listed players execute the listed actions one
  after the other; the run stops at the first execution that raises.
\<close>

fun play_moves ::
  "(nat \<times> 'c move) list \<Rightarrow> 'c board \<times> 'c player list
     \<Rightarrow> error option \<times> 'c board \<times> 'c player list" where
  "play_moves [] w = (None, w)"
| "play_moves ((i, m) # ms) w =
     (case play_move i m w of
        (None, w') \<Rightarrow> play_moves ms w'
      | (Some e, w') \<Rightarrow> (Some e, w'))"

section \<open>Game\<close>

text \<open>
  The fields of \<^verbatim>\<open>Game\<close>; those that \<^verbatim>\<open>__init__\<close> and \<^verbatim>\<open>reset_game\<close> set to
  \<^verbatim>\<open>None\<close> are options. The type \<open>'a\<close> is the type of the actions the players return
  (the two above and the ones that are not among the sources); the game stores an action
  in its history and does not look into it.

  Modelled from the spec: \<^verbatim>\<open>GameHistory\<close> is "an append-only ordered sequence of
  (state-snapshot, action-or-none) pairs", \<^verbatim>\<open>clear()\<close> empties it; the snapshot is the
  state of the game that \<^verbatim>\<open>history.add(self, action)\<close> receives.
\<close>

record 'c snapshot =
  snap_players :: "'c player list option"
  snap_teams :: "team list option"
  snap_current_player_index :: "int option"
  snap_current_team_index :: "int option"
  snap_board :: "'c board option"

record ('c, 'a) game =
  players :: "'c player list option"
  teams :: "team list option"
  current_player_index :: "int option"
  current_team_index :: "int option"
  board :: "'c board option"
  keep_history :: bool
  history :: "('c snapshot \<times> 'a option) list"
  initialized :: bool

record 'c game_state =
  state_board :: "'c board"
  state_players :: "'c player list option"
  state_current_player_index :: "int option"
  state_current_team_index :: "int option"
  state_red_score :: int
  state_blue_score :: int

text \<open>\<^verbatim>\<open>Game.__init__\<close>.\<close>

definition Game_init :: "bool \<Rightarrow> ('c, 'a) game" where
  "Game_init keep =
     \<lparr>players = None, teams = None, current_player_index = None, current_team_index = None,
      board = None, keep_history = keep, history = [], initialized = False\<rparr>"

definition GameHistory_add ::
  "('c snapshot \<times> 'a option) list \<Rightarrow> ('c, 'a) game \<Rightarrow> 'a option \<Rightarrow> ('c snapshot \<times> 'a option) list" where
  "GameHistory_add h g act =
     h @ [(\<lparr>snap_players = players g, snap_teams = teams g,
            snap_current_player_index = current_player_index g,
            snap_current_team_index = current_team_index g,
            snap_board = board g\<rparr>, act)]"

text \<open>
  Subscription \<^verbatim>\<open>xs[i]\<close> of a list: positions \<open>0\<close> to \<open>len - 1\<close> read from the
  front, positions \<open>-len\<close> to \<open>-1\<close> read from the back, any other position raises.
\<close>

definition getitem :: "'x list \<Rightarrow> int \<Rightarrow> error + 'x" where
  "getitem xs i =
     (if 0 \<le> i \<and> i < int (length xs) then Inr (xs ! nat i)
      else if i < 0 \<and> - int (length xs) \<le> i then Inr (xs ! nat (int (length xs) + i))
      else Inl IndexError)"

text \<open>The properties \<^verbatim>\<open>red_team\<close> and \<^verbatim>\<open>blue_team\<close>; an empty list is falsy.\<close>

definition red_team :: "('c, 'a) game \<Rightarrow> error + team option" where
  "red_team g =
     (case teams g of
        None \<Rightarrow> Inr None
      | Some ts \<Rightarrow>
          if ts = [] then Inr None
          else (case getitem ts 0 of Inl e \<Rightarrow> Inl e | Inr t \<Rightarrow> Inr (Some t)))"

definition blue_team :: "('c, 'a) game \<Rightarrow> error + team option" where
  "blue_team g =
     (case teams g of
        None \<Rightarrow> Inr None
      | Some ts \<Rightarrow>
          if ts = [] then Inr None
          else (case getitem ts 1 of Inl e \<Rightarrow> Inl e | Inr t \<Rightarrow> Inr (Some t)))"

text \<open>
  \<^verbatim>\<open>Game._get_team_score\<close>: the two loops add to \<^verbatim>\<open>total_score\<close> from 0, then the
  bonus for the pile. A team that is \<^verbatim>\<open>None\<close> fails at \<^verbatim>\<open>team.has_grabbed_pile()\<close>.
\<close>

definition get_team_score ::
  "'c deps \<Rightarrow> team option \<Rightarrow> 'c list list \<Rightarrow> 'c list \<Rightarrow> error + int" where
  "get_team_score d t team_series opponent_cards =
     (let s1 = foldl (\<lambda>total ser. total + get_total_value d ser) 0 team_series;
          s2 = foldl (\<lambda>total c. total + get_score d c) s1 opponent_cards
      in case t of
           None \<Rightarrow> Inl AttributeError
         | Some tm \<Rightarrow> Inr (if grabbed_pile tm then s2 + 100 else s2))"

text \<open>
  The hands of a team's players, \<^verbatim>\<open>player.hand.get_raw_cards()\<close> for each player of
  \<^verbatim>\<open>team.players\<close>; \<open>team_players\<close> gives their positions in \<^verbatim>\<open>game.players\<close>.
\<close>

definition team_hands :: "('c, 'a) game \<Rightarrow> team \<Rightarrow> 'c list" where
  "team_hands g t =
     (case players g of
        None \<Rightarrow> []
      | Some ps \<Rightarrow> concat (map (\<lambda>i. hand (ps ! i)) (team_players t)))"

definition get_red_team_score :: "'c deps \<Rightarrow> ('c, 'a) game \<Rightarrow> bool \<Rightarrow> error + int" where
  "get_red_team_score d g include_opponent_cards =
     (case (if include_opponent_cards
            then (case blue_team g of
                    Inl e \<Rightarrow> Inl e
                  | Inr None \<Rightarrow> Inl AttributeError
                  | Inr (Some t) \<Rightarrow> Inr (team_hands g t))
            else Inr []) of
        Inl e \<Rightarrow> Inl e
      | Inr opponent_cards \<Rightarrow>
          (case red_team g of
             Inl e \<Rightarrow> Inl e
           | Inr t \<Rightarrow>
               (case board g of
                  None \<Rightarrow> Inl AttributeError
                | Some b \<Rightarrow> get_team_score d t (red_team_series b) opponent_cards)))"

definition get_blue_team_score :: "'c deps \<Rightarrow> ('c, 'a) game \<Rightarrow> bool \<Rightarrow> error + int" where
  "get_blue_team_score d g include_opponent_cards =
     (case (if include_opponent_cards
            then (case red_team g of
                    Inl e \<Rightarrow> Inl e
                  | Inr None \<Rightarrow> Inl AttributeError
                  | Inr (Some t) \<Rightarrow> Inr (team_hands g t))
            else Inr []) of
        Inl e \<Rightarrow> Inl e
      | Inr opponent_cards \<Rightarrow>
          (case blue_team g of
             Inl e \<Rightarrow> Inl e
           | Inr t \<Rightarrow>
               (case board g of
                  None \<Rightarrow> Inl AttributeError
                | Some b \<Rightarrow> get_team_score d t (blue_team_series b) opponent_cards)))"

text \<open>
  \<^verbatim>\<open>Game.get_state\<close>. The arguments of \<^verbatim>\<open>GameState(...)\<close> are evaluated from left to
  right; a board that is \<^verbatim>\<open>None\<close> first fails inside the red score.
\<close>

definition get_state :: "'c deps \<Rightarrow> ('c, 'a) game \<Rightarrow> error + 'c game_state" where
  "get_state d g =
     (case get_red_team_score d g False of
        Inl e \<Rightarrow> Inl e
      | Inr red \<Rightarrow>
          (case get_blue_team_score d g False of
             Inl e \<Rightarrow> Inl e
           | Inr blue \<Rightarrow>
               (case board g of
                  None \<Rightarrow> Inl AttributeError
                | Some b \<Rightarrow>
                    Inr \<lparr>state_board = b, state_players = players g,
                         state_current_player_index = current_player_index g,
                         state_current_team_index = current_team_index g,
                         state_red_score = red, state_blue_score = blue\<rparr>)))"

subsection \<open>Termination test\<close>

text \<open>The loop \<^verbatim>\<open>for player in self.players\<close> of \<^verbatim>\<open>is_finished\<close>.\<close>

fun some_player_finished :: "'c deps \<Rightarrow> 'c board \<Rightarrow> 'c player list \<Rightarrow> bool" where
  "some_player_finished d b [] = False"
| "some_player_finished d b (p # ps) =
     (if Hand_is_empty (hand p) \<and> grabbed_pile (team p) \<and> team_has_pure d b (team p) then True
      else some_player_finished d b ps)"

definition is_finished :: "'c deps \<Rightarrow> ('c, 'a) game \<Rightarrow> error + bool" where
  "is_finished d g =
     (case board g of
        None \<Rightarrow> Inl AttributeError
      | Some b \<Rightarrow>
          if Deck_is_empty (deck b) \<and> num_piles_remaining d b = 0 then Inr True
          else (case players g of
                  None \<Rightarrow> Inl TypeError
                | Some ps \<Rightarrow> Inr (some_player_finished d b ps)))"

subsection \<open>One step of the game\<close>

text \<open>
  \<^verbatim>\<open>Game._next_player_turn\<close>. \<^verbatim>\<open>None += 1\<close> raises \<^verbatim>\<open>TypeError\<close>, after the
  assignments before it have been made.
\<close>

definition next_player_turn :: "('c, 'a) game \<Rightarrow> error option \<times> ('c, 'a) game" where
  "next_player_turn g =
     (case current_player_index g of
        None \<Rightarrow> (Some TypeError, g)
      | Some i \<Rightarrow>
          (let g1 = g\<lparr>current_player_index := Some ((i + 1) mod NUM_PLAYERS)\<rparr>
           in case current_team_index g1 of
                None \<Rightarrow> (Some TypeError, g1)
              | Some j \<Rightarrow>
                  (let g2 = g1\<lparr>current_team_index := Some ((j + 1) mod NUM_TEAMS)\<rparr>
                   in case board g2 of
                        None \<Rightarrow> (Some AttributeError, g2)
                      | Some b \<Rightarrow> (None, g2\<lparr>board := Some (b\<lparr>phase := DRAW_PHASE\<rparr>)\<rparr>))))"

text \<open>
  \<^verbatim>\<open>Player.play_single_step(state, verbose)\<close> is not among the sources: it is a
  parameter. The state it receives refers to the board and to the players, so the call
  can change the board, the players and through them the teams; it returns the action.
  It cannot assign to the indices, the history or the flags of the game.
\<close>

record ('c, 'a) step_result =
  res_action :: 'a
  res_board :: "'c board"
  res_players :: "'c player list"
  res_teams :: "team list"

type_synonym ('c, 'a) agent = "'c player \<Rightarrow> 'c game_state \<Rightarrow> bool \<Rightarrow> ('c, 'a) step_result"

text \<open>The expression \<^verbatim>\<open>self.players[self.current_player_index]\<close>.\<close>

definition current_player :: "('c, 'a) game \<Rightarrow> error + 'c player" where
  "current_player g =
     (case players g of
        None \<Rightarrow> Inl TypeError
      | Some ps \<Rightarrow>
          (case current_player_index g of
             None \<Rightarrow> Inl TypeError
           | Some i \<Rightarrow> getitem ps i))"

text \<open>
  \<^verbatim>\<open>Game.play_single_step\<close>. The result is the exception the call ended with, if any,
  and the game as the call leaves it. With \<^verbatim>\<open>verbose\<close> the game is also printed.
\<close>

definition play_single_step ::
  "'c deps \<Rightarrow> ('c, 'a) agent \<Rightarrow> ('c, 'a) game \<Rightarrow> bool \<Rightarrow> error option \<times> ('c, 'a) game" where
  "play_single_step d agent g verbose =
     (if \<not> initialized g then (Some GameNotInitialized, g)
      else (case is_finished d g of
              Inl e \<Rightarrow> (Some e, g)
            | Inr True \<Rightarrow> (None, g)
            | Inr False \<Rightarrow>
                (case current_player g of
                   Inl e \<Rightarrow> (Some e, g)
                 | Inr pl \<Rightarrow>
                     (case get_state d g of
                        Inl e \<Rightarrow> (Some e, g)
                      | Inr st \<Rightarrow>
                          (let r = agent pl st verbose;
                               g1 = g\<lparr>board := Some (res_board r),
                                      players := Some (res_players r),
                                      teams := Some (res_teams r)\<rparr>;
                               g2 = (if keep_history g1
                                     then g1\<lparr>history :=
                                            GameHistory_add (history g1) g1 (Some (res_action r))\<rparr>
                                     else g1)
                           in case board g2 of
                                None \<Rightarrow> (Some AttributeError, g2)
                              | Some b \<Rightarrow>
                                  if phase b = END_TURN_PHASE then next_player_turn g2
                                  else (None, g2))))))"

subsection \<open>Setting up a game\<close>

text \<open>
  Modelled from the spec: the \<^verbatim>\<open>Deck\<close> collaborator, "deal_n(count) -> sequence of
  Card, deal() -> Card". The cards are taken from the front of the list; a deck that
  holds too few cards raises, which is the value \<open>None\<close>.
\<close>

definition Deck_deal_n :: "nat \<Rightarrow> 'c list \<Rightarrow> ('c list \<times> 'c list) option" where
  "Deck_deal_n n dk = (if n \<le> length dk then Some (take n dk, drop n dk) else None)"

definition Deck_deal :: "'c list \<Rightarrow> ('c \<times> 'c list) option" where
  "Deck_deal dk = (case dk of [] \<Rightarrow> None | c # rest \<Rightarrow> Some (c, rest))"

text \<open>
  \<^verbatim>\<open>Game._initialize_players\<close>: players 0 and 2 form the red team, players 1 and 3
  the blue team. Modelled from the spec: a new player holds no cards and a new team has
  not grabbed a pile; whether a player is an \<^verbatim>\<open>AIPlayer\<close> or a \<^verbatim>\<open>HumanPlayer\<close> only
  decides how it chooses its actions.
\<close>

definition initialize_players :: "('c, 'a) game \<Rightarrow> ('c, 'a) game" where
  "initialize_players g =
     (let team_red = \<lparr>color = RED, grabbed_pile = False, team_players = [0, 2]\<rparr>;
          team_blue = \<lparr>color = BLUE, grabbed_pile = False, team_players = [1, 3]\<rparr>;
          ps = map (\<lambda>i. \<lparr>index = i, hand = [],
                          team = (if i = 0 \<or> i = 2 then team_red else team_blue)\<rparr>)
                 [0 ..< nat NUM_PLAYERS]
      in g\<lparr>players := Some ps, teams := Some [team_red, team_blue]\<rparr>)"

text \<open>
  \<^verbatim>\<open>Game._deal_hands\<close>: first one \<^verbatim>\<open>deal_n\<close> for each player, then each player
  receives its hand. The result is the players and what is left of the deck.
\<close>

fun deal_hands_loop :: "nat \<Rightarrow> nat \<Rightarrow> 'c list \<Rightarrow> ('c list list \<times> 'c list) option" where
  "deal_hands_loop n 0 dk = Some ([], dk)"
| "deal_hands_loop n (Suc k) dk =
     (case Deck_deal_n n dk of
        None \<Rightarrow> None
      | Some (h, dk') \<Rightarrow>
          (case deal_hands_loop n k dk' of
             None \<Rightarrow> None
           | Some (hs, dk'') \<Rightarrow> Some (h # hs, dk'')))"

definition deal_hands ::
  "nat \<Rightarrow> 'c player list \<Rightarrow> 'c list \<Rightarrow> ('c player list \<times> 'c list) option" where
  "deal_hands n ps dk =
     (case deal_hands_loop n (length ps) dk of
        None \<Rightarrow> None
      | Some (hs, dk') \<Rightarrow> Some (map (\<lambda>(p, h). p\<lparr>hand := h\<rparr>) (zip ps hs), dk'))"

text \<open>
  \<^verbatim>\<open>Game._initialize_board\<close> and \<^verbatim>\<open>Game._initialize_board_stack\<close>. Modelled from the
  spec: \<^verbatim>\<open>Board(deck, left_pile, right_pile)\<close> starts with an empty stack and no series;
  its first phase is set by the caller.
\<close>

definition initialize_board :: "nat \<Rightarrow> 'c list \<Rightarrow> 'c board option" where
  "initialize_board n dk =
     (case Deck_deal_n n dk of
        None \<Rightarrow> None
      | Some (left_pile_cards, dk1) \<Rightarrow>
          (case Deck_deal_n n dk1 of
             None \<Rightarrow> None
           | Some (right_pile_cards, dk2) \<Rightarrow>
               Some \<lparr>deck = dk2, left_pile = left_pile_cards, right_pile = right_pile_cards,
                     stack = [], red_team_series = [], blue_team_series = [],
                     phase = DRAW_PHASE\<rparr>))"

definition initialize_board_stack :: "'c board \<Rightarrow> 'c board option" where
  "initialize_board_stack b =
     (case Deck_deal (deck b) of
        None \<Rightarrow> None
      | Some (c, dk) \<Rightarrow> Some (b\<lparr>deck := dk, stack := Stack_put (stack b) c\<rparr>))"

text \<open>
  \<^verbatim>\<open>Game.initialize_game\<close>. \<open>num_hand\<close> and \<open>num_pile\<close> are
  \<^verbatim>\<open>Constants.NUM_CARDS_IN_STARTING_HAND\<close> and \<^verbatim>\<open>Constants.NUM_CARDS_IN_PILE\<close>, and
  \<open>dk\<close> is the shuffled double deck that \<^verbatim>\<open>_create_deck\<close> returns: the three are
  parameters. An exception leaves the game as the statements before it made it.
\<close>

definition initialize_game ::
  "nat \<Rightarrow> nat \<Rightarrow> 'c list \<Rightarrow> ('c, 'a) game \<Rightarrow> error option \<times> ('c, 'a) game" where
  "initialize_game num_hand num_pile dk g =
     (if initialized g then (None, g)
      else
        (let g1 = initialize_players
                    (g\<lparr>current_player_index := Some 0, current_team_index := Some 0\<rparr>)
         in case players g1 of
              None \<Rightarrow> (Some TypeError, g1)
            | Some ps \<Rightarrow>
                (case deal_hands num_hand ps dk of
                   None \<Rightarrow> (Some IndexError, g1)
                 | Some (ps', dk1) \<Rightarrow>
                     (let g2 = g1\<lparr>players := Some ps'\<rparr>
                      in case initialize_board num_pile dk1 of
                           None \<Rightarrow> (Some IndexError, g2)
                         | Some b \<Rightarrow>
                             (let g3 = g2\<lparr>board := Some b\<rparr>
                              in case initialize_board_stack b of
                                   None \<Rightarrow> (Some IndexError, g3)
                                 | Some b' \<Rightarrow>
                                     (let g4 = g3\<lparr>board := Some (b'\<lparr>phase := DRAW_PHASE\<rparr>),
                                                  initialized := True\<rparr>
                                      in if keep_history g4
                                         then (None,
                                               g4\<lparr>history := GameHistory_add (history g4) g4 None\<rparr>)
                                         else (None, g4)))))))"

text \<open>\<^verbatim>\<open>Game.reset_game\<close>, with the parameters of \<open>initialize_game\<close>.\<close>

definition reset_game ::
  "nat \<Rightarrow> nat \<Rightarrow> 'c list \<Rightarrow> ('c, 'a) game \<Rightarrow> bool \<Rightarrow> bool \<Rightarrow> error option \<times> ('c, 'a) game" where
  "reset_game num_hand num_pile dk g initialize clear_history =
     (let g1 = g\<lparr>players := None, teams := None, current_player_index := None,
                 current_team_index := None, board := None\<rparr>;
          g2 = (if clear_history then g1\<lparr>history := []\<rparr> else g1);
          g3 = g2\<lparr>initialized := False\<rparr>
      in if initialize then initialize_game num_hand num_pile dk g3 else (None, g3))"

section \<open>Example states\<close>

text \<open>
  An instance of the parameters and a game of four players, with cards numbered by
  naturals (0 is the joker, 2 the wildcard), on which the theorems below are evaluated.
\<close>

definition ex_deps :: "nat deps" where
  "ex_deps =
     \<lparr>is_joker = (\<lambda>c. c = 0),
      is_wildcard = (\<lambda>c. c = 2),
      get_score = int,
      is_valid = (\<lambda>s. 3 \<le> length s),
      get_total_value = (\<lambda>s. sum_list (map int s)),
      player_may_clear_hand = (\<lambda>b p a. grabbed_pile (team p)),
      num_piles_remaining =
        (\<lambda>b. (if left_pile b = [] then 0 else 1) + (if right_pile b = [] then 0 else 1)),
      team_has_pure = (\<lambda>b t. False)\<rparr>"

definition ex_red :: team where
  "ex_red = \<lparr>color = RED, grabbed_pile = False, team_players = [0, 2]\<rparr>"

definition ex_blue :: team where
  "ex_blue = \<lparr>color = BLUE, grabbed_pile = False, team_players = [1, 3]\<rparr>"

definition ex_players :: "nat player list" where
  "ex_players =
     [\<lparr>index = 0, hand = [5, 6], team = ex_red\<rparr>,
      \<lparr>index = 1, hand = [3, 4, 7], team = ex_blue\<rparr>,
      \<lparr>index = 2, hand = [8, 9, 10], team = ex_red\<rparr>,
      \<lparr>index = 3, hand = [11, 12, 13], team = ex_blue\<rparr>]"

definition ex_board :: "nat board" where
  "ex_board =
     \<lparr>deck = [20, 21], left_pile = [30], right_pile = [31], stack = [40],
      red_team_series = [], blue_team_series = [], phase = ACTION_PHASE\<rparr>"

definition ex_game :: "(nat, nat move) game" where
  "ex_game =
     \<lparr>players = Some ex_players, teams = Some [ex_red, ex_blue],
      current_player_index = Some 0, current_team_index = Some 0,
      board = Some ex_board, keep_history = True, history = [], initialized = True\<rparr>"

text \<open>The same game when the player to move holds a single card.\<close>

definition ex_game_last_card :: "(nat, nat move) game" where
  "ex_game_last_card =
     ex_game\<lparr>players := Some (ex_players[0 := (ex_players ! 0)\<lparr>hand := [5]\<rparr>])\<rparr>"

text \<open>The same game when the deck and both piles are used up.\<close>

definition ex_game_no_cards :: "(nat, nat move) game" where
  "ex_game_no_cards =
     ex_game\<lparr>board := Some (ex_board\<lparr>deck := [], left_pile := [], right_pile := []\<rparr>)\<rparr>"

text \<open>
  A deck of twelve cards, and the game that \<open>initialize_game\<close> makes of it with hands of
  two cards and piles of one card.
\<close>

definition ex_deck :: "nat list" where
  "ex_deck = [1, 2, 3, 4, 5, 6, 7, 8, 9, 10, 11, 12]"

definition ex_dealt_players :: "nat player list" where
  "ex_dealt_players =
     [\<lparr>index = 0, hand = [1, 2], team = ex_red\<rparr>,
      \<lparr>index = 1, hand = [3, 4], team = ex_blue\<rparr>,
      \<lparr>index = 2, hand = [5, 6], team = ex_red\<rparr>,
      \<lparr>index = 3, hand = [7, 8], team = ex_blue\<rparr>]"

definition ex_dealt_board :: "nat board" where
  "ex_dealt_board =
     \<lparr>deck = [12], left_pile = [9], right_pile = [10], stack = [11],
      red_team_series = [], blue_team_series = [], phase = DRAW_PHASE\<rparr>"

definition ex_dealt_game :: "(nat, nat move) game" where
  "ex_dealt_game =
     \<lparr>players = Some ex_dealt_players, teams = Some [ex_red, ex_blue],
      current_player_index = Some 0, current_team_index = Some 0,
      board = Some ex_dealt_board, keep_history = False, history = [], initialized = True\<rparr>"

text \<open>The action that discards card 5, and the action that puts down 8, 9 and 10.\<close>

definition ex_discard :: "nat discard_card_action" where
  "ex_discard = \<lparr>is_executed = False, card_fld = 5\<rparr>"

definition ex_put :: "nat put_action" where
  "ex_put = \<lparr>is_executed = False, series = [8, 9, 10]\<rparr>"

text \<open>The action that puts down a series with the joker.\<close>

definition ex_put_joker :: "nat put_action" where
  "ex_put_joker = \<lparr>is_executed = False, series = [0, 8, 9]\<rparr>"

text \<open>
  A player of the red team who holds 8, 9, 10, 11 and 12, each once, and the action that
  puts down 8, 8 and 9: the double deck has every card twice, so a series may hold the
  same card twice.
\<close>

definition ex_holder :: "nat player" where
  "ex_holder = \<lparr>index = 2, hand = [8, 9, 10, 11, 12], team = ex_red\<rparr>"

definition ex_put_repeated :: "nat put_action" where
  "ex_put_repeated = \<lparr>is_executed = False, series = [8, 8, 9]\<rparr>"

text \<open>
  Modelled from the spec: \<^verbatim>\<open>Player.play_single_step\<close> and \<^verbatim>\<open>Action.execute\<close> are
  not among the sources. A player who answers with the discard of a given card: the
  action "is validated against Board+Player; if valid it mutates Board/Player and
  reports the phase that should follow", which becomes the phase of the board. The
  teams are the ones of the game, unchanged.
\<close>

definition discarding_player ::
  "team list \<Rightarrow> 'c discard_card_action \<Rightarrow> ('c, 'c move) agent" where
  "discarding_player ts a pl st verbose =
     (let b = state_board st;
          ps = (case state_players st of None \<Rightarrow> [] | Some qs \<Rightarrow> qs)
      in if DiscardCardAction_validate a pl b verbose
         then (case DiscardCardAction_execute a pl b of
                 (e, pl', b') \<Rightarrow>
                   \<lparr>res_action = Discard a,
                    res_board = b'\<lparr>phase := DiscardCardAction_target_phase a pl' b'\<rparr>,
                    res_players = ps[index pl := pl'],
                    res_teams = ts\<rparr>)
         else \<lparr>res_action = Discard a, res_board = b, res_players = ps, res_teams = ts\<rparr>)"

section \<open>Evaluation on the example states\<close>

lemmas ex_defs =
  ex_game_def ex_game_last_card_def ex_game_no_cards_def ex_board_def ex_players_def
  ex_red_def ex_blue_def ex_deps_def ex_discard_def ex_put_def ex_deck_def
  ex_put_joker_def ex_holder_def ex_put_repeated_def
  ex_dealt_players_def ex_dealt_board_def ex_dealt_game_def

lemmas step_defs =
  play_single_step_def is_finished_def current_player_def get_state_def getitem_def
  get_red_team_score_def get_blue_team_score_def get_team_score_def red_team_def
  blue_team_def next_player_turn_def GameHistory_add_def discarding_player_def
  DiscardCardAction_validate_def DiscardCardAction_execute_def
  DiscardCardAction_target_phase_def Hand_contains_def Hand_pop_def Hand_is_empty_def
  Stack_put_def Deck_is_empty_def NUM_PLAYERS_def NUM_TEAMS_def

section \<open>Rewards\<close>

text \<open>
  C6: the reward of a put action is the total value of its series, and the reward of a
  discard action is 1 whatever the card.
\<close>

theorem get_reward_values:
  "PutAction_get_reward d a = get_total_value d (series a)
   \<and> DiscardCardAction_get_reward a' = 1"
  by (simp add: PutAction_get_reward_def DiscardCardAction_get_reward_def)

section \<open>Validation\<close>

lemma has_all_cards_st_eq: "has_all_cards_st p cs = (has_all_cards (hand p) cs, p)"
  by (induction cs) auto

text \<open>
  C8: \<^verbatim>\<open>validate\<close> is a pure predicate. Run as a step on the state, the validation of
  a discard and of a put returns the action, the player (so its hand) and the board (deck,
  piles, stack, series, phase) exactly as it received them, together with the boolean of
  \<^verbatim>\<open>validate\<close>, whether that boolean is true or false.
\<close>

theorem validate_leaves_state_unchanged:
  "DiscardCardAction_validate_st a' p b v = (DiscardCardAction_validate a' p b v, a', p, b)
   \<and> PutAction_validate_st d a p b v = (PutAction_validate d a p b v, a, p, b)"
  by (simp add: DiscardCardAction_validate_st_def DiscardCardAction_validate_def
      PutAction_validate_st_def PutAction_validate_def has_all_cards_st_eq)

text \<open>
  C3: a put action that would leave the player with at most one card
  (\<^verbatim>\<open>player.num_cards() <= len(series) + 1\<close>) is rejected by \<^verbatim>\<open>validate\<close> unless
  \<^verbatim>\<open>board.player_may_clear_hand(player, action)\<close>, asked about this very action, holds.
\<close>

theorem put_validate_hand_clear_gate:
  "num_cards p \<le> length (series a) + 1 \<Longrightarrow> \<not> player_may_clear_hand d b p a
   \<Longrightarrow> PutAction_validate d a p b verbose = False"
  by (simp add: PutAction_validate_def)

theorem put_validate_hand_clear_gate_witness:
  "num_cards (ex_players ! 2) \<le> length (series ex_put) + 1
   \<and> \<not> player_may_clear_hand ex_deps ex_board (ex_players ! 2) ex_put
   \<and> PutAction_validate ex_deps ex_put (ex_players ! 2) ex_board False = False"
proof -
  have 1: "num_cards (ex_players ! 2) \<le> length (series ex_put) + 1"
    by (simp add: num_cards_def ex_defs)
  have 2: "\<not> player_may_clear_hand ex_deps ex_board (ex_players ! 2) ex_put"
    by (simp add: ex_defs)
  from put_validate_hand_clear_gate [OF 1 2] 1 2 show ?thesis
    by simp
qed

text \<open>
  C5: \<^verbatim>\<open>PutAction.validate\<close> is false when the phase is neither the action phase nor
  the play-joker phase, and false in the play-joker phase when no card of the series is a
  joker; \<^verbatim>\<open>DiscardCardAction.validate\<close> is false when the phase is not the action phase,
  and false when the card is not in the player's hand.
\<close>

theorem validate_phase_legality:
  "(phase b \<noteq> ACTION_PHASE \<and> phase b \<noteq> PLAY_JOKER_PHASE
      \<longrightarrow> PutAction_validate d a p b verbose = False)
   \<and> (phase b = PLAY_JOKER_PHASE \<and> \<not> (\<exists>c \<in> set (series a). is_joker d c)
      \<longrightarrow> PutAction_validate d a p b verbose = False)
   \<and> (phase b \<noteq> ACTION_PHASE \<longrightarrow> DiscardCardAction_validate a' p b verbose = False)
   \<and> (card_fld a' \<notin> set (hand p) \<longrightarrow> DiscardCardAction_validate a' p b verbose = False)"
  by (simp add: PutAction_validate_def DiscardCardAction_validate_def Hand_contains_def
      list_ex_iff)

theorem validate_phase_legality_witness:
  "phase (ex_board\<lparr>phase := DRAW_PHASE\<rparr>) \<noteq> ACTION_PHASE
   \<and> phase (ex_board\<lparr>phase := DRAW_PHASE\<rparr>) \<noteq> PLAY_JOKER_PHASE
   \<and> PutAction_validate ex_deps ex_put (ex_players ! 2) (ex_board\<lparr>phase := DRAW_PHASE\<rparr>) False
       = False
   \<and> phase (ex_board\<lparr>phase := PLAY_JOKER_PHASE\<rparr>) = PLAY_JOKER_PHASE
   \<and> \<not> (\<exists>c \<in> set (series ex_put). is_joker ex_deps c)
   \<and> PutAction_validate ex_deps ex_put (ex_players ! 2)
        (ex_board\<lparr>phase := PLAY_JOKER_PHASE\<rparr>) False = False
   \<and> DiscardCardAction_validate ex_discard (ex_players ! 0)
        (ex_board\<lparr>phase := DRAW_PHASE\<rparr>) False = False
   \<and> phase ex_board = ACTION_PHASE
   \<and> card_fld ex_discard \<notin> set (hand (ex_players ! 1))
   \<and> DiscardCardAction_validate ex_discard (ex_players ! 1) ex_board False = False"
proof -
  have 1: "phase (ex_board\<lparr>phase := DRAW_PHASE\<rparr>) \<noteq> ACTION_PHASE
      \<and> phase (ex_board\<lparr>phase := DRAW_PHASE\<rparr>) \<noteq> PLAY_JOKER_PHASE"
    by simp
  have 2: "phase (ex_board\<lparr>phase := PLAY_JOKER_PHASE\<rparr>) = PLAY_JOKER_PHASE
      \<and> \<not> (\<exists>c \<in> set (series ex_put). is_joker ex_deps c)"
    by (simp add: ex_defs)
  have 3: "phase ex_board = ACTION_PHASE
      \<and> card_fld ex_discard \<notin> set (hand (ex_players ! 1))"
    by (simp add: ex_defs)
  from 1 validate_phase_legality
         [of "ex_board\<lparr>phase := DRAW_PHASE\<rparr>" ex_deps ex_put "ex_players ! 2" False
            ex_discard]
  have a: "PutAction_validate ex_deps ex_put (ex_players ! 2)
             (ex_board\<lparr>phase := DRAW_PHASE\<rparr>) False = False"
    by blast
  from 2 validate_phase_legality
         [of "ex_board\<lparr>phase := PLAY_JOKER_PHASE\<rparr>" ex_deps ex_put "ex_players ! 2" False
            ex_discard]
  have b: "PutAction_validate ex_deps ex_put (ex_players ! 2)
             (ex_board\<lparr>phase := PLAY_JOKER_PHASE\<rparr>) False = False"
    by blast
  from 1 validate_phase_legality
         [of "ex_board\<lparr>phase := DRAW_PHASE\<rparr>" ex_deps ex_put "ex_players ! 0" False
            ex_discard]
  have c: "DiscardCardAction_validate ex_discard (ex_players ! 0)
             (ex_board\<lparr>phase := DRAW_PHASE\<rparr>) False = False"
    by blast
  from 3 validate_phase_legality
         [of ex_board ex_deps ex_put "ex_players ! 1" False ex_discard]
  have d: "DiscardCardAction_validate ex_discard (ex_players ! 1) ex_board False = False"
    by blast
  from 1 2 3 a b c d show ?thesis
    by blast
qed

section \<open>The pure series of a put action\<close>





section \<open>Termination test\<close>

lemma some_player_finished_iff:
  "some_player_finished d b ps
   = (\<exists>p \<in> set ps. Hand_is_empty (hand p) \<and> grabbed_pile (team p) \<and> team_has_pure d b (team p))"
  by (induction ps) auto

text \<open>
  C4: on a game that has its board and its players, \<^verbatim>\<open>is_finished\<close> returns true if
  and only if the deck is empty and no pile remains, or some player has an empty hand
  while its team has grabbed a pile and has a pure series on the board; otherwise it
  returns false.
\<close>

theorem is_finished_iff:
  assumes "board g = Some b" and "players g = Some ps"
  shows "is_finished d g
    = Inr ((Deck_is_empty (deck b) \<and> num_piles_remaining d b = 0)
           \<or> (\<exists>p \<in> set ps. Hand_is_empty (hand p) \<and> grabbed_pile (team p)
                \<and> team_has_pure d b (team p)))"
  using assms by (auto simp: is_finished_def some_player_finished_iff)

theorem is_finished_iff_witness:
  "board ex_game = Some ex_board \<and> players ex_game = Some ex_players
   \<and> is_finished ex_deps ex_game = Inr False
   \<and> board ex_game_no_cards
       = Some (ex_board\<lparr>deck := [], left_pile := [], right_pile := []\<rparr>)
   \<and> players ex_game_no_cards = Some ex_players
   \<and> is_finished ex_deps ex_game_no_cards = Inr True"
proof -
  have 1: "board ex_game = Some ex_board" and 2: "players ex_game = Some ex_players"
    by (simp_all add: ex_game_def)
  have 3: "board ex_game_no_cards
      = Some (ex_board\<lparr>deck := [], left_pile := [], right_pile := []\<rparr>)"
    and 4: "players ex_game_no_cards = Some ex_players"
    by (simp_all add: ex_game_no_cards_def ex_game_def)
  from is_finished_iff [OF 1 2, of ex_deps] is_finished_iff [OF 3 4, of ex_deps] 1 2 3 4
  show ?thesis
    by (simp add: ex_board_def ex_players_def ex_red_def ex_blue_def ex_deps_def
        Deck_is_empty_def Hand_is_empty_def)
qed

section \<open>One step of the game\<close>

text \<open>
  C7: \<^verbatim>\<open>play_single_step\<close> on a game whose \<^verbatim>\<open>initialized\<close> flag is false raises
  \<^verbatim>\<open>Exception("Game not initialized")\<close> and leaves the game as it was.
\<close>

theorem uninitialized_step_raises:
  "\<not> initialized g \<Longrightarrow> play_single_step d agent g verbose = (Some GameNotInitialized, g)"
  by (simp add: play_single_step_def)

theorem uninitialized_step_raises_witness:
  "\<not> initialized (Game_init True :: (nat, nat move) game)
   \<and> play_single_step ex_deps (discarding_player [ex_red, ex_blue] ex_discard)
        (Game_init True) False
      = (Some GameNotInitialized, Game_init True)"
proof -
  have 1: "\<not> initialized (Game_init True :: (nat, nat move) game)"
    by (simp add: Game_init_def)
  from uninitialized_step_raises [OF 1] 1 show ?thesis
    by simp
qed

text \<open>
  C10: on an initialized game for which \<^verbatim>\<open>is_finished\<close> returns true,
  \<^verbatim>\<open>play_single_step\<close> returns with the game unchanged, whatever the players would
  answer: no player is asked, the history, the two indices and the board stay as they are.
\<close>

theorem finished_step_changes_nothing:
  "initialized g \<Longrightarrow> is_finished d g = Inr True
   \<Longrightarrow> play_single_step d agent g verbose = (None, g)"
  by (simp add: play_single_step_def)

theorem finished_step_changes_nothing_witness:
  "initialized ex_game_no_cards
   \<and> is_finished ex_deps ex_game_no_cards = Inr True
   \<and> play_single_step ex_deps (discarding_player [ex_red, ex_blue] ex_discard)
        ex_game_no_cards False
      = (None, ex_game_no_cards)"
proof -
  have 1: "initialized ex_game_no_cards"
    by (simp add: ex_game_no_cards_def ex_game_def)
  have 2: "is_finished ex_deps ex_game_no_cards = Inr True"
    by (simp add: is_finished_def Deck_is_empty_def ex_defs)
  from finished_step_changes_nothing [OF 1 2] 1 2 show ?thesis
    by simp
qed

text \<open>
  C1, as the code has it: in an initialized, unfinished game, when the action of the
  player to move leaves the board in the ordinary end-turn phase
  (\<^verbatim>\<open>END_TURN_PHASE\<close>), \<^verbatim>\<open>play_single_step\<close> advances the player index by one modulo
  the number of players and the team index by one modulo the number of teams, and sets
  the phase to the draw phase. When the action leaves the board in any other phase, the
  no-cards end-turn phase included, the two indices and the phase stay as the action
  left them.
\<close>

theorem end_turn_rotation:
  assumes "initialized g" and "is_finished d g = Inr False"
    and "current_player g = Inr pl" and "get_state d g = Inr st"
    and "current_player_index g = Some i" and "current_team_index g = Some j"
  shows "(phase (res_board (agent pl st verbose)) = END_TURN_PHASE \<longrightarrow>
            fst (play_single_step d agent g verbose) = None
          \<and> current_player_index (snd (play_single_step d agent g verbose))
              = Some ((i + 1) mod NUM_PLAYERS)
          \<and> current_team_index (snd (play_single_step d agent g verbose))
              = Some ((j + 1) mod NUM_TEAMS)
          \<and> map_option phase (board (snd (play_single_step d agent g verbose)))
              = Some DRAW_PHASE)
       \<and> (phase (res_board (agent pl st verbose)) \<noteq> END_TURN_PHASE \<longrightarrow>
            fst (play_single_step d agent g verbose) = None
          \<and> current_player_index (snd (play_single_step d agent g verbose)) = Some i
          \<and> current_team_index (snd (play_single_step d agent g verbose)) = Some j
          \<and> map_option phase (board (snd (play_single_step d agent g verbose)))
              = Some (phase (res_board (agent pl st verbose))))"
  using assms
  by (simp add: play_single_step_def next_player_turn_def Let_def)

theorem end_turn_rotation_witness:
  "initialized ex_game
   \<and> is_finished ex_deps ex_game = Inr False
   \<and> phase (res_board (discarding_player [ex_red, ex_blue] ex_discard (ex_players ! 0)
        \<lparr>state_board = ex_board, state_players = Some ex_players,
         state_current_player_index = Some 0, state_current_team_index = Some 0,
         state_red_score = 0, state_blue_score = 0\<rparr> False)) = END_TURN_PHASE
   \<and> fst (play_single_step ex_deps (discarding_player [ex_red, ex_blue] ex_discard)
        ex_game False) = None
   \<and> current_player_index (snd (play_single_step ex_deps
        (discarding_player [ex_red, ex_blue] ex_discard) ex_game False)) = Some 1
   \<and> current_team_index (snd (play_single_step ex_deps
        (discarding_player [ex_red, ex_blue] ex_discard) ex_game False)) = Some 1
   \<and> map_option phase (board (snd (play_single_step ex_deps
        (discarding_player [ex_red, ex_blue] ex_discard) ex_game False))) = Some DRAW_PHASE
   \<and> initialized ex_dealt_game
   \<and> is_finished ex_deps ex_dealt_game = Inr False
   \<and> phase (res_board (discarding_player [ex_red, ex_blue] ex_discard (ex_dealt_players ! 0)
        \<lparr>state_board = ex_dealt_board, state_players = Some ex_dealt_players,
         state_current_player_index = Some 0, state_current_team_index = Some 0,
         state_red_score = 0, state_blue_score = 0\<rparr> False)) \<noteq> END_TURN_PHASE
   \<and> fst (play_single_step ex_deps (discarding_player [ex_red, ex_blue] ex_discard)
        ex_dealt_game False) = None
   \<and> current_player_index (snd (play_single_step ex_deps
        (discarding_player [ex_red, ex_blue] ex_discard) ex_dealt_game False)) = Some 0
   \<and> current_team_index (snd (play_single_step ex_deps
        (discarding_player [ex_red, ex_blue] ex_discard) ex_dealt_game False)) = Some 0
   \<and> map_option phase (board (snd (play_single_step ex_deps
        (discarding_player [ex_red, ex_blue] ex_discard) ex_dealt_game False)))
       = Some DRAW_PHASE"
proof -
  let ?st = "\<lparr>state_board = ex_board, state_players = Some ex_players,
         state_current_player_index = Some 0, state_current_team_index = Some 0,
         state_red_score = 0, state_blue_score = 0\<rparr>"
  let ?st' = "\<lparr>state_board = ex_dealt_board, state_players = Some ex_dealt_players,
         state_current_player_index = Some 0, state_current_team_index = Some 0,
         state_red_score = 0, state_blue_score = 0\<rparr>"
  let ?agent = "discarding_player [ex_red, ex_blue] ex_discard"
  have 1: "initialized ex_game"
    by (simp add: ex_game_def)
  have 2: "is_finished ex_deps ex_game = Inr False"
    by (simp add: ex_defs step_defs)
  have 3: "current_player ex_game = Inr (ex_players ! 0)"
    by (simp add: ex_defs step_defs)
  have 4: "get_state ex_deps ex_game = Inr ?st"
    by (simp add: ex_defs step_defs)
  have 5: "current_player_index ex_game = Some 0"
    by (simp add: ex_game_def)
  have 6: "current_team_index ex_game = Some 0"
    by (simp add: ex_game_def)
  have 7: "phase (res_board (?agent (ex_players ! 0) ?st False)) = END_TURN_PHASE"
    by (simp add: ex_defs step_defs)
  have a: "fst (play_single_step ex_deps ?agent ex_game False) = None
      \<and> current_player_index (snd (play_single_step ex_deps ?agent ex_game False)) = Some 1
      \<and> current_team_index (snd (play_single_step ex_deps ?agent ex_game False)) = Some 1
      \<and> map_option phase (board (snd (play_single_step ex_deps ?agent ex_game False)))
          = Some DRAW_PHASE"
    using end_turn_rotation [OF 1 2 3 4 5 6, of ?agent False] 7
    by (simp add: NUM_PLAYERS_def NUM_TEAMS_def)
  have 11: "initialized ex_dealt_game"
    by (simp add: ex_dealt_game_def)
  have 12: "is_finished ex_deps ex_dealt_game = Inr False"
    by (simp add: ex_defs step_defs)
  have 13: "current_player ex_dealt_game = Inr (ex_dealt_players ! 0)"
    by (simp add: ex_defs step_defs)
  have 14: "get_state ex_deps ex_dealt_game = Inr ?st'"
    by (simp add: ex_defs step_defs)
  have 15: "current_player_index ex_dealt_game = Some 0"
    by (simp add: ex_dealt_game_def)
  have 16: "current_team_index ex_dealt_game = Some 0"
    by (simp add: ex_dealt_game_def)
  have 17: "phase (res_board (?agent (ex_dealt_players ! 0) ?st' False)) = DRAW_PHASE"
    by (simp add: ex_defs step_defs)
  have b: "fst (play_single_step ex_deps ?agent ex_dealt_game False) = None
      \<and> current_player_index (snd (play_single_step ex_deps ?agent ex_dealt_game False))
          = Some 0
      \<and> current_team_index (snd (play_single_step ex_deps ?agent ex_dealt_game False))
          = Some 0
      \<and> map_option phase (board (snd (play_single_step ex_deps ?agent ex_dealt_game False)))
          = Some DRAW_PHASE"
    using end_turn_rotation [OF 11 12 13 14 15 16, of ?agent False] 17
    by simp
  from 1 2 7 a 11 12 17 b show ?thesis
    by simp
qed

text \<open>
  The claim as the spec states it fails where the player to move discards its last
  card: the discard leaves the board in \<^verbatim>\<open>NO_CARDS_END_TURN_PHASE\<close>, an end-turn
  variant, and the step of the initialized, unfinished game returns with the player index
  and the team index still 0, not 1, and with that phase, not the draw phase.
\<close>

theorem no_cards_end_turn_counterexample:
  "initialized ex_game_last_card
   \<and> is_finished ex_deps ex_game_last_card = Inr False
   \<and> current_player_index ex_game_last_card = Some 0
   \<and> current_team_index ex_game_last_card = Some 0
   \<and> DiscardCardAction_validate ex_discard
        ((ex_players ! 0)\<lparr>hand := [5]\<rparr>) ex_board False
   \<and> fst (play_single_step ex_deps (discarding_player [ex_red, ex_blue] ex_discard)
        ex_game_last_card False) = None
   \<and> map_option phase (board (snd (play_single_step ex_deps
        (discarding_player [ex_red, ex_blue] ex_discard) ex_game_last_card False)))
       = Some NO_CARDS_END_TURN_PHASE
   \<and> current_player_index (snd (play_single_step ex_deps
        (discarding_player [ex_red, ex_blue] ex_discard) ex_game_last_card False)) = Some 0
   \<and> current_team_index (snd (play_single_step ex_deps
        (discarding_player [ex_red, ex_blue] ex_discard) ex_game_last_card False)) = Some 0
   \<and> (0 + 1) mod NUM_PLAYERS = 1
   \<and> (0 + 1) mod NUM_TEAMS = 1
   \<and> map_option hand (map_option (\<lambda>ps. ps ! 0) (players (snd (play_single_step ex_deps
        (discarding_player [ex_red, ex_blue] ex_discard) ex_game_last_card False))))
       = Some []"
  by (simp add: ex_defs step_defs)

section \<open>Card conservation\<close>

lemma pop_all_mset:
  "pop_all h cs = (None, h') \<Longrightarrow> mset h = mset h' + mset cs"
proof (induction cs arbitrary: h)
  case Nil
  then show ?case by simp
next
  case (Cons c cs)
  show ?case
  proof (cases "c \<in> set h")
    case True
    with Cons.prems have "pop_all (remove1 c h) cs = (None, h')"
      by (simp add: Hand_pop_def)
    then have "mset (remove1 c h) = mset h' + mset cs"
      by (rule Cons.IH)
    then have "add_mset c (mset (remove1 c h)) = add_mset c (mset h' + mset cs)"
      by simp
    moreover from True have "add_mset c (mset (remove1 c h)) = mset h"
      by simp
    ultimately show ?thesis
      by simp
  next
    case False
    with Cons.prems show ?thesis
      by (simp add: Hand_pop_def)
  qed
qed

lemma discard_execute_cards:
  assumes "DiscardCardAction_execute a p b = (None, p', b')"
  shows "board_cards b' + mset (hand p') = board_cards b + mset (hand p)"
  using assms
  by (auto simp: DiscardCardAction_execute_def Hand_pop_def Stack_put_def board_cards_def
      split: if_splits)

lemma put_execute_cards:
  assumes "PutAction_execute a p b = (None, p', b')"
  shows "board_cards b' + mset (hand p') = board_cards b + mset (hand p)"
  using assms
  by (auto simp: PutAction_execute_def append_series_for_player_def board_cards_def
      dest!: pop_all_mset split: prod.splits option.splits if_splits)

lemma execute_move_cards:
  assumes "execute_move m p b = (None, p', b')"
  shows "board_cards b' + mset (hand p') = board_cards b + mset (hand p)"
  using assms by (cases m) (auto dest: discard_execute_cards put_execute_cards)

lemma hands_cards_update:
  "i < length ps \<Longrightarrow> hands_cards (ps[i := p']) + mset (hand (ps ! i)) = hands_cards ps + mset (hand p')"
  unfolding hands_cards_def
proof (induction ps arbitrary: i)
  case Nil
  then show ?case by simp
next
  case (Cons q qs)
  then show ?case by (cases i) (auto simp: algebra_simps)
qed

lemma play_move_cards:
  assumes "play_move i m w = (None, w')"
  shows "all_cards w' = all_cards w"
proof -
  obtain b ps where w: "w = (b, ps)" by (cases w)
  from assms w have i: "i < length ps"
    by (auto simp: play_move_def split: if_splits)
  obtain e p' b' where ex: "execute_move m (ps ! i) b = (e, p', b')"
    by (cases "execute_move m (ps ! i) b")
  with assms w i have e: "e = None" and w': "w' = (b', ps[i := p'])"
    by (auto simp: play_move_def)
  from ex e have 1: "board_cards b' + mset (hand p') = board_cards b + mset (hand (ps ! i))"
    by (auto dest: execute_move_cards)
  from i have 2: "hands_cards (ps[i := p']) + mset (hand (ps ! i)) = hands_cards ps + mset (hand p')"
    by (rule hands_cards_update)
  have "all_cards w' + (mset (hand p') + mset (hand (ps ! i)))
        = all_cards w + (mset (hand p') + mset (hand (ps ! i)))"
    using 1 2 unfolding all_cards_def w w' fst_conv snd_conv
    by (metis (no_types, lifting) add.assoc add.commute add.left_commute)
  then show ?thesis by simp
qed

lemma play_moves_cards:
  "play_moves ms w = (None, w') \<Longrightarrow> all_cards w' = all_cards w"
proof (induction ms arbitrary: w)
  case Nil
  then show ?case by simp
next
  case (Cons im ms)
  obtain i m where im: "im = (i, m)" by (cases im)
  obtain e w1 where pm: "play_move i m w = (e, w1)" by (cases "play_move i m w")
  with Cons.prems im have e: "e = None" and rest: "play_moves ms w1 = (None, w')"
    by (auto split: option.splits)
  from pm e have "all_cards w1 = all_cards w"
    by (auto dest: play_move_cards)
  with Cons.IH [OF rest] show ?case
    by simp
qed

text \<open>Which executions complete: a validated discard, and a put whose cards the hand holds.\<close>

lemma discard_validated_executes:
  "DiscardCardAction_validate a p b v \<Longrightarrow> fst (DiscardCardAction_execute a p b) = None"
  by (simp add: DiscardCardAction_validate_def DiscardCardAction_execute_def Hand_contains_def
      Hand_pop_def split: if_splits)

lemma pop_all_completes_iff:
  "fst (pop_all h cs) = None \<longleftrightarrow> mset cs \<subseteq># mset h"
proof (induction cs arbitrary: h)
  case Nil
  then show ?case by simp
next
  case (Cons c cs)
  show ?case
  proof (cases "c \<in> set h")
    case True
    then have "fst (pop_all h (c # cs)) = None \<longleftrightarrow> mset cs \<subseteq># mset (remove1 c h)"
      by (simp add: Hand_pop_def Cons.IH)
    also have "\<dots> \<longleftrightarrow> mset (c # cs) \<subseteq># mset h"
      using True by (simp add: insert_subset_eq_iff)
    finally show ?thesis .
  next
    case False
    then have "\<not> mset (c # cs) \<subseteq># mset h"
      by (metis mset_subset_eqD list.set_intros(1) set_mset_mset)
    with False show ?thesis
      by (simp add: Hand_pop_def)
  qed
qed

lemma put_executes_iff:
  "fst (PutAction_execute a p b) = None \<longleftrightarrow> mset (series a) \<subseteq># mset (hand p)"
  using pop_all_completes_iff [of "hand p" "series a"]
  by (auto simp: PutAction_execute_def split: prod.splits option.splits)

lemma has_all_cards_iff: "has_all_cards h cs \<longleftrightarrow> set cs \<subseteq> set h"
  by (induction cs) (auto simp: Hand_contains_def)

lemma put_validated_distinct_executes:
  assumes "PutAction_validate d a p b v" and "distinct (series a)"
  shows "fst (PutAction_execute a p b) = None"
proof -
  from assms(1) have sub: "set (series a) \<subseteq> set (hand p)"
    by (auto simp: PutAction_validate_def has_all_cards_iff split: if_splits)
  have "mset (series a) \<subseteq># mset (hand p)"
  proof (rule mset_subset_eqI)
    fix c
    show "count (mset (series a)) c \<le> count (mset (hand p)) c"
    proof (cases "c \<in> set (series a)")
      case True
      with assms(2) have "count (mset (series a)) c = 1"
        by (simp add: distinct_count_atmost_1)
      moreover from True sub have "c \<in># mset (hand p)"
        by auto
      then have "0 < count (mset (hand p)) c"
        by (simp only: count_greater_zero_iff)
      ultimately show ?thesis by simp
    next
      case False
      then have "c \<notin># mset (series a)"
        by simp
      then have "count (mset (series a)) c = 0"
        by (simp only: not_in_iff)
      then show ?thesis
        by (simp only: le0)
    qed
  qed
  then show ?thesis
    by (simp add: put_executes_iff)
qed

text \<open>\<open>initialize_game\<close> deals every card of the deck to exactly one container.\<close>

lemma deal_n_mset: "Deck_deal_n n dk = Some (h, dk') \<Longrightarrow> mset dk = mset h + mset dk'"
  by (auto simp: Deck_deal_n_def split: if_splits) (metis append_take_drop_id mset_append)

lemma deal_hands_loop_mset:
  "deal_hands_loop n k dk = Some (hs, dk') \<Longrightarrow>
     length hs = k \<and> mset dk = mset (concat hs) + mset dk'"
proof (induction k arbitrary: dk hs)
  case 0
  then show ?case by simp
next
  case (Suc k)
  then obtain h dk1 hs1 where d: "Deck_deal_n n dk = Some (h, dk1)"
    and l: "deal_hands_loop n k dk1 = Some (hs1, dk')" and hs: "hs = h # hs1"
    by (auto split: option.splits)
  from Suc.IH [OF l] deal_n_mset [OF d] hs show ?case
    by simp
qed

lemma hands_after_deal:
  "length hs = length ps \<Longrightarrow>
     hands_cards (map (\<lambda>(p, h). p\<lparr>hand := h\<rparr>) (zip ps hs)) = mset (concat hs)"
  unfolding hands_cards_def
  by (induction ps hs rule: list_induct2') auto

lemma deal_hands_mset:
  assumes "deal_hands n ps dk = Some (ps', dk')"
  shows "length ps' = length ps \<and> mset dk = hands_cards ps' + mset dk'"
proof -
  from assms obtain hs where l: "deal_hands_loop n (length ps) dk = Some (hs, dk')"
    and ps': "ps' = map (\<lambda>(p, h). p\<lparr>hand := h\<rparr>) (zip ps hs)"
    by (auto simp: deal_hands_def split: option.splits)
  from deal_hands_loop_mset [OF l] ps' show ?thesis
    by (simp add: hands_after_deal)
qed

lemma initialize_board_mset:
  assumes "initialize_board n dk = Some b"
  shows "board_cards b = mset dk \<and> stack b = []"
  using assms
  by (auto simp: initialize_board_def board_cards_def split: option.splits
      dest!: deal_n_mset)

lemma initialize_board_stack_mset:
  assumes "initialize_board_stack b = Some b'"
  shows "board_cards b' = board_cards b"
  using assms
  by (auto simp: initialize_board_stack_def Deck_deal_def Stack_put_def board_cards_def
      split: list.splits)

lemma initialize_game_start:
  assumes "initialize_game num_hand num_pile dk g = (None, g')" and "\<not> initialized g"
  shows "\<exists>b ps. board g' = Some b \<and> players g' = Some ps \<and> all_cards (b, ps) = mset dk
           \<and> initialized g' \<and> phase b = DRAW_PHASE \<and> length ps = nat NUM_PLAYERS
           \<and> current_player_index g' = Some 0 \<and> current_team_index g' = Some 0"
proof -
  let ?g1 = "initialize_players
               (g\<lparr>current_player_index := Some 0, current_team_index := Some 0\<rparr>)"
  obtain ps0 where ps0: "players ?g1 = Some ps0" and len0: "length ps0 = nat NUM_PLAYERS"
    by (simp add: initialize_players_def Let_def)
  from assms ps0 obtain ps dk1 where dh: "deal_hands num_hand ps0 dk = Some (ps, dk1)"
    by (auto simp: initialize_game_def Let_def split: option.splits)
  from assms ps0 dh obtain b0 where ib: "initialize_board num_pile dk1 = Some b0"
    by (auto simp: initialize_game_def Let_def split: option.splits)
  from assms ps0 dh ib obtain b1 where ibs: "initialize_board_stack b0 = Some b1"
    by (auto simp: initialize_game_def Let_def split: option.splits)
  from assms ps0 dh ib ibs
  have g': "board g' = Some (b1\<lparr>phase := DRAW_PHASE\<rparr>)" "players g' = Some ps"
    "initialized g'" "current_player_index g' = Some 0" "current_team_index g' = Some 0"
    by (auto simp: initialize_game_def Let_def initialize_players_def split: if_splits)
  have "board_cards (b1\<lparr>phase := DRAW_PHASE\<rparr>) = board_cards b1"
    by (simp add: board_cards_def)
  with deal_hands_mset [OF dh] initialize_board_mset [OF ib] initialize_board_stack_mset [OF ibs]
  have "all_cards (b1\<lparr>phase := DRAW_PHASE\<rparr>, ps) = mset dk"
    by (simp add: all_cards_def)
  with g' deal_hands_mset [OF dh] len0 show ?thesis
    by simp
qed

text \<open>
  C2 on the code, at an input where it fails. A player holds 8, 9, 10, 11 and 12 and puts
  down the series 8, 8, 9 in the action phase. \<^verbatim>\<open>PutAction.validate\<close> accepts the
  action: its loop asks for each card of the series whether the hand holds that card, and
  the hand holds an 8. \<^verbatim>\<open>PutAction._execute\<close> then removes the 8, raises at the second
  8 and appends no series: the 8 is in no container any more, and the cards of the deck,
  the piles, the stack, the hands and the series are one card short of what they were.
\<close>

theorem put_repeated_card_loses_card:
  "phase ex_board = ACTION_PHASE
   \<and> hand ex_holder = [8, 9, 10, 11, 12]
   \<and> series ex_put_repeated = [8, 8, 9]
   \<and> PutAction_validate ex_deps ex_put_repeated ex_holder ex_board False = True
   \<and> PutAction_execute ex_put_repeated ex_holder ex_board
       = (Some KeyError, ex_holder\<lparr>hand := [9, 10, 11, 12]\<rparr>, ex_board)
   \<and> play_move 2 (Put ex_put_repeated) (ex_board, ex_players[2 := ex_holder])
       = (Some KeyError, ex_board, ex_players[2 := ex_holder\<lparr>hand := [9, 10, 11, 12]\<rparr>])
   \<and> all_cards (ex_board, ex_players[2 := ex_holder])
       = all_cards (ex_board, ex_players[2 := ex_holder\<lparr>hand := [9, 10, 11, 12]\<rparr>]) + {#8#}"
  by (simp add: PutAction_validate_def PutAction_execute_def play_move_def num_cards_def
      Hand_contains_def Hand_pop_def all_cards_def board_cards_def hands_cards_def ex_defs)

end
